theory Spec2Isabelle
  imports Main "HOL-Library.Word"
begin

section \<open>Shared values\<close>

text \<open>
  A decoded JSON value, as \<^verbatim>\<open>encoding/json\<close> hands it to a Go \<^verbatim>\<open>any\<close>:
  \<^verbatim>\<open>nil\<close>, \<^verbatim>\<open>bool\<close>, \<^verbatim>\<open>float64\<close>, \<^verbatim>\<open>string\<close>, \<^verbatim>\<open>[]any\<close>,
  \<^verbatim>\<open>map[string]any\<close>. The code never computes with a number, so \<open>JNum\<close> only
  records that the value is one.
\<close>

datatype json =
    JNull
  | JBool bool
  | JNum int
  | JStr string
  | JArr "json list"
  | JObj "(string \<times> json) list"

text \<open>
  One constructor for each place where the source builds or passes on an error. The
  constructors that take an error are the \<^verbatim>\<open>%w\<close> wrappers.
\<close>

datatype error =
    ErrGQCommitmentNeedsGQOnly
  | ErrGQCommitmentNeedsEmptyClaim
  | ErrGQCommitmentAudIsClientID
  | ErrUnmarshalPayload
  | ErrAudienceMismatch
  | ErrMissingAudienceClaim
  | ErrProviderAlgMissing
  | ErrNonGQUnsupported
  | ErrVerifyingGQSig error
  | ErrGetOPPublicKey error
  | ErrJwsVerifyOp
  | ErrGetCicValues
  | ErrCicHash
  | ErrAudMissingForGQCommitment
  | ErrAudPrefixForGQCommitment
  | ErrMissingGQCommitment
  | ErrMissingCommitmentClaim
  | ErrCommitmentMismatch
  | ErrVerifyingCicSig error
  | ErrJwsVerifyCic
  | ErrGQMissingAlgHeader
  | ErrSigNotGQ
  | ErrMalformattedHeaders
  | ErrOrigAlgNotRS256
  | ErrMissingIssuer
  | ErrIssuerMismatch
  | ErrDiscoverPublicKey
  | ErrGetProviderPublicKey error
  | ErrJwkNotRSA
  | ErrGQ256VerifyJWT
  | ErrGQSigInvalid
  | ErrVerifySignedMessage
  | ErrParseInitMFAAuth
  | ErrTimestampTooOld
  | ErrTimestampInFuture
  | ErrUnmarshalPKToken
  | ErrDeserializeAud
  | ErrHmacWrite
  | ErrHmacByteCount
  | ErrRandRead
  | ErrJwsParse
  | ErrInvalidAuthcode
  | ErrCosign

text \<open>
  A Go call returns a value, returns an error, or panics (an unguarded type assertion,
  a nil pointer dereference). A function whose Go result is just \<^verbatim>\<open>error\<close> has type
  \<open>unit result\<close>, with \<open>Ok ()\<close> for \<^verbatim>\<open>nil\<close>.
\<close>

datatype 'a result = Ok 'a | Err error | Panic

type_synonym SignatureAlgorithm = string

definition GQ256 :: SignatureAlgorithm where
  "GQ256 = ''GQ256''"

definition RS256 :: SignatureAlgorithm where
  "RS256 = ''RS256''"

text \<open>A \<^verbatim>\<open>crypto.PublicKey\<close>: an \<^verbatim>\<open>*rsa.PublicKey\<close> or a key of another kind.\<close>

datatype PublicKey = RsaPublicKey nat | OtherPublicKey nat

section \<open>The PK Token, as the verifier and the cosigner read it\<close>

text \<open>
  The \<^verbatim>\<open>pktoken\<close>, \<^verbatim>\<open>gq\<close>, \<^verbatim>\<open>discover\<close> and \<^verbatim>\<open>jws\<close> packages are used by the
  code below but are not part of it. A token is therefore the record of what their
  accessors and verification functions return on it:
  \<^item> \<open>Payload\<close>: the claims \<^verbatim>\<open>json.Unmarshal(pkt.Payload, &claims)\<close> decodes, \<open>None\<close>
    when decoding fails (a claim whose JSON value is \<^verbatim>\<open>null\<close> is present, as \<open>JNull\<close>);
  \<^item> \<open>OpToken\<close>: the bytes \<^verbatim>\<open>pkt.OpToken\<close>, which key discovery is called with;
  \<^item> \<open>ProviderAlgorithm\<close>: \<^verbatim>\<open>pkt.ProviderAlgorithm()\<close>, \<open>None\<close> for \<^verbatim>\<open>ok = false\<close>;
  \<^item> \<open>OpProtectedHeaders\<close>: \<^verbatim>\<open>pkt.Op.ProtectedHeaders()\<close>;
  \<^item> \<open>OriginalHeadersAlg\<close>: \<^verbatim>\<open>originalTokenHeaders(pkt.OpToken)\<close> followed by
    \<^verbatim>\<open>Algorithm()\<close>, \<open>None\<close> when the original headers cannot be recovered;
  \<^item> \<open>PktIssuer\<close>: \<^verbatim>\<open>pkt.Issuer()\<close>, \<open>None\<close> for an error;
  \<^item> \<open>CicValues\<close>: \<^verbatim>\<open>pkt.GetCicValues()\<close>, \<open>None\<close> for an error, and \<open>Hash\<close> on it is
    \<^verbatim>\<open>cic.Hash()\<close>;
  \<^item> \<open>JwsVerifyOp alg key\<close>: whether \<^verbatim>\<open>jws.Verify(pkt.OpToken, jws.WithKey(alg, key))\<close>
    returns no error;
  \<^item> \<open>GQ256VerifyJWT n\<close>: \<^verbatim>\<open>gq.GQ256VerifyJWT(rsaKey, pkt.OpToken)\<close> for the RSA key \<open>n\<close>,
    \<open>None\<close> for an error;
  \<^item> \<open>JwsVerifyCic\<close>: whether \<^verbatim>\<open>jws.Verify(pkt.CicToken, ...)\<close> under the key of the
    CIC returns no error;
  \<^item> \<open>VerifySignedMessage sig\<close>: \<^verbatim>\<open>pkt.VerifySignedMessage(sig)\<close>, the signed message or
    \<open>None\<close> for an error.
\<close>

record Cic =
  Hash :: "string option"

record PKToken =
  Payload :: "(string \<times> json) list option"
  OpToken :: string
  ProviderAlgorithm :: "SignatureAlgorithm option"
  OpProtectedHeaders :: "(string \<times> json) list"
  OriginalHeadersAlg :: "SignatureAlgorithm option"
  PktIssuer :: "string option"
  CicValues :: "Cic option"
  JwsVerifyOp :: "SignatureAlgorithm \<Rightarrow> PublicKey \<Rightarrow> bool"
  GQ256VerifyJWT :: "nat \<Rightarrow> bool option"
  JwsVerifyCic :: bool
  VerifySignedMessage :: "string \<Rightarrow> string option"

section \<open>Provider verifier (verifier/providerverifier.go)\<close>

definition AudPrefixForGQCommitment :: string where
  "AudPrefixForGQCommitment = ''OPENPUBKEY-PKTOKEN:''"

text \<open>
  \<open>DiscoverPublicKey issuer token\<close> is \<^verbatim>\<open>DiscoverPublicKey.ByToken(ctx, issuer, token)\<close>:
  the public key of the record found, or \<open>None\<close> for an error.
\<close>

record ProviderVerifierOpts =
  ClientID :: string
  SkipClientIDCheck :: bool
  DiscoverPublicKey :: "string \<Rightarrow> string \<Rightarrow> PublicKey option"
  SkipExpirationCheck :: bool
  GQOnly :: bool
  GQCommitment :: bool

record DefaultProviderVerifier =
  issuer :: string
  commitmentClaim :: string
  options :: ProviderVerifierOpts

definition Issuer :: "DefaultProviderVerifier \<Rightarrow> string" where
  "Issuer v = issuer v"

text \<open>\<^verbatim>\<open>strings.CutPrefix(s, prefix)\<close> reports whether \<open>s\<close> begins with \<open>prefix\<close>.\<close>

definition CutPrefixOk :: "string \<Rightarrow> string \<Rightarrow> bool" where
  "CutPrefixOk s pre = (length pre \<le> length s \<and> take (length pre) s = pre)"

text \<open>
  The loop of \<^verbatim>\<open>verifyAudience\<close> over a list audience: \<^verbatim>\<open>audience.(string)\<close> panics on
  an element that is not a string, the first element equal to the client ID returns
  \<^verbatim>\<open>nil\<close>, and the end of the list is the mismatch error.
\<close>

fun audienceLoop :: "json list \<Rightarrow> string \<Rightarrow> unit result" where
  "audienceLoop [] clientID = Err ErrAudienceMismatch"
| "audienceLoop (JStr audience # aud) clientID =
     (if audience = clientID then Ok () else audienceLoop aud clientID)"
| "audienceLoop (_ # aud) clientID = Panic"

definition verifyAudience :: "PKToken \<Rightarrow> string \<Rightarrow> unit result" where
  "verifyAudience pkt clientID =
     (case Payload pkt of
        None \<Rightarrow> Err ErrUnmarshalPayload
      | Some claims \<Rightarrow>
          (case map_of claims ''aud'' of
             Some (JStr aud) \<Rightarrow> if aud \<noteq> clientID then Err ErrAudienceMismatch else Ok ()
           | Some (JArr aud) \<Rightarrow> audienceLoop aud clientID
           | _ \<Rightarrow> Err ErrMissingAudienceClaim))"

definition providerPublicKey :: "DefaultProviderVerifier \<Rightarrow> PKToken \<Rightarrow> PublicKey option" where
  "providerPublicKey v pkt = DiscoverPublicKey (options v) (Issuer v) (OpToken pkt)"

text \<open>
  \<^verbatim>\<open>verifyCommitment\<close>. The commitment read from the token is an \<^verbatim>\<open>any\<close>;
  \<^verbatim>\<open>commitment != string(expectedCommitment)\<close> is false only for a string with that
  content. In the GQ commitment branch \<^verbatim>\<open>aud.(string)\<close> is not guarded.
\<close>

definition verifyCommitment :: "DefaultProviderVerifier \<Rightarrow> PKToken \<Rightarrow> unit result" where
  "verifyCommitment v pkt =
     (case Payload pkt of
        None \<Rightarrow> Err ErrUnmarshalPayload
      | Some claims \<Rightarrow>
     (case CicValues pkt of
        None \<Rightarrow> Err ErrGetCicValues
      | Some cic \<Rightarrow>
     (case Hash cic of
        None \<Rightarrow> Err ErrCicHash
      | Some expectedCommitment \<Rightarrow>
     (case (if GQCommitment (options v) then
              (case map_of claims ''aud'' of
                 None \<Rightarrow> Err ErrAudMissingForGQCommitment
               | Some (JStr aud) \<Rightarrow>
                   if \<not> CutPrefixOk aud AudPrefixForGQCommitment
                   then Err ErrAudPrefixForGQCommitment
                   else (case map_of (OpProtectedHeaders pkt) ''cic'' of
                           None \<Rightarrow> Err ErrMissingGQCommitment
                         | Some commitment \<Rightarrow> Ok commitment)
               | Some _ \<Rightarrow> Panic)
            else
              (case map_of claims (commitmentClaim v) of
                 None \<Rightarrow> Err ErrMissingCommitmentClaim
               | Some commitment \<Rightarrow> Ok commitment)) of
        Err e \<Rightarrow> Err e
      | Panic \<Rightarrow> Panic
      | Ok commitment \<Rightarrow>
          if commitment \<noteq> JStr expectedCommitment then Err ErrCommitmentMismatch
          else Ok ()))))"

definition verifyGQSig :: "DefaultProviderVerifier \<Rightarrow> PKToken \<Rightarrow> unit result" where
  "verifyGQSig v pkt =
     (case ProviderAlgorithm pkt of
        None \<Rightarrow> Err ErrGQMissingAlgHeader
      | Some alg \<Rightarrow>
     if alg \<noteq> GQ256 then Err ErrSigNotGQ
     else
     (case OriginalHeadersAlg pkt of
        None \<Rightarrow> Err ErrMalformattedHeaders
      | Some origAlg \<Rightarrow>
     if origAlg \<noteq> RS256 then Err ErrOrigAlgNotRS256
     else
     (case PktIssuer pkt of
        None \<Rightarrow> Err ErrMissingIssuer
      | Some pktIssuer \<Rightarrow>
     if pktIssuer \<noteq> issuer v then Err ErrIssuerMismatch
     else
     (case DiscoverPublicKey (options v) (Issuer v) (OpToken pkt) of
        None \<Rightarrow> Err (ErrGetProviderPublicKey ErrDiscoverPublicKey)
      | Some (OtherPublicKey k) \<Rightarrow> Err ErrJwkNotRSA
      | Some (RsaPublicKey rsaKey) \<Rightarrow>
          (case GQ256VerifyJWT pkt rsaKey of
             None \<Rightarrow> Err ErrGQ256VerifyJWT
           | Some ok \<Rightarrow> if \<not> ok then Err ErrGQSigInvalid else Ok ())))))"

definition verifyCicSignature :: "PKToken \<Rightarrow> unit result" where
  "verifyCicSignature pkt =
     (case CicValues pkt of
        None \<Rightarrow> Err ErrGetCicValues
      | Some cic \<Rightarrow> if JwsVerifyCic pkt then Ok () else Err ErrJwsVerifyCic)"

text \<open>
  The \<^verbatim>\<open>switch alg\<close> of \<^verbatim>\<open>VerifyProvider\<close>: a case for \<^verbatim>\<open>gq.GQ256\<close>, a case for
  \<^verbatim>\<open>jwa.RS256\<close>, and no \<^verbatim>\<open>default\<close>, so every other algorithm leaves the switch
  without an error.
\<close>

definition switchAlg :: "DefaultProviderVerifier \<Rightarrow> PKToken \<Rightarrow> SignatureAlgorithm \<Rightarrow> unit result" where
  "switchAlg v pkt alg =
     (if alg = GQ256 then
        (case verifyGQSig v pkt of
           Err e \<Rightarrow> Err (ErrVerifyingGQSig e)
         | r \<Rightarrow> r)
      else if alg = RS256 then
        (case providerPublicKey v pkt of
           None \<Rightarrow> Err (ErrGetOPPublicKey ErrDiscoverPublicKey)
         | Some pubKey \<Rightarrow> if JwsVerifyOp pkt alg pubKey then Ok () else Err ErrJwsVerifyOp)
      else Ok ())"

text \<open>
  \<^verbatim>\<open>VerifyProvider\<close>. \<^verbatim>\<open>verifyAudience\<close> is called whether or not the client ID check
  is skipped; only its error is dropped when it is.
\<close>

definition VerifyProvider :: "DefaultProviderVerifier \<Rightarrow> PKToken \<Rightarrow> unit result" where
  "VerifyProvider v pkt =
     (if GQCommitment (options v) \<and> \<not> GQOnly (options v) then Err ErrGQCommitmentNeedsGQOnly
      else if GQCommitment (options v) \<and> commitmentClaim v \<noteq> '''' then Err ErrGQCommitmentNeedsEmptyClaim
      else if GQCommitment (options v) \<and> \<not> SkipClientIDCheck (options v) then Err ErrGQCommitmentAudIsClientID
      else
      (case verifyAudience pkt (ClientID (options v)) of
         Panic \<Rightarrow> Panic
       | audRes \<Rightarrow>
      if audRes \<noteq> Ok () \<and> \<not> SkipClientIDCheck (options v) then audRes
      else
      (case ProviderAlgorithm pkt of
         None \<Rightarrow> Err ErrProviderAlgMissing
       | Some alg \<Rightarrow>
      if alg \<noteq> GQ256 \<and> GQOnly (options v) then Err ErrNonGQUnsupported
      else
      (case switchAlg v pkt alg of
         Err e \<Rightarrow> Err e
       | Panic \<Rightarrow> Panic
       | Ok _ \<Rightarrow>
      (case verifyCommitment v pkt of
         Err e \<Rightarrow> Err e
       | Panic \<Rightarrow> Panic
       | Ok _ \<Rightarrow>
      (case verifyCicSignature pkt of
         Err e \<Rightarrow> Err (ErrVerifyingCicSig e)
       | r \<Rightarrow> r))))))"

section \<open>Authenticating cosigner (cosigner package)\<close>

type_synonym byte = "8 word"

text \<open>
  The message \<^verbatim>\<open>msgs.InitMFAAuth\<close>; \<^verbatim>\<open>TimeSigned\<close> is the \<^verbatim>\<open>int64\<close> handed to
  \<^verbatim>\<open>time.Unix\<close>.
\<close>

record InitMFAAuth =
  RedirectUri :: string
  TimeSigned :: "64 word"
  MsgNonce :: string

record AuthState =
  Pkt :: PKToken
  StateIssuer :: string
  Aud :: string
  Sub :: string
  Username :: string
  DisplayName :: string
  RedirectURI :: string
  Nonce :: string
  SigIssued :: bool

record CosignerClaims =
  Iss :: string
  ClaimKeyID :: string
  Algorithm :: string
  AuthID :: string
  AuthTime :: int
  IssuedAt :: int
  Expiration :: int
  ClaimRedirectURI :: string
  ClaimNonce :: string

text \<open>
  The cosigner. \<open>Cosign\<close> stands for the method of the embedded \<^verbatim>\<open>Cosigner\<close> (its
  signer and algorithm \<open>Alg\<close>), which is not part of this code: the cosigned token, or
  \<open>None\<close> for an error. \<open>AuthIdIter\<close> is the \<^verbatim>\<open>atomic.Uint64\<close>.
\<close>

record AuthCosigner =
  Alg :: SignatureAlgorithm
  Cosign :: "PKToken \<Rightarrow> CosignerClaims \<Rightarrow> string option"
  CosignerIssuer :: string
  KeyID :: string
  AuthIdIter :: "64 word"
  HmacKey :: "byte list"
  AuthStateMap :: "string \<rightharpoonup> AuthState"
  AuthCodeMap :: "string \<rightharpoonup> string"

text \<open>
  Library functions the cosigner calls:
  \<^item> \<open>JwsParsePayload sig\<close>: \<^verbatim>\<open>jws.Parse(sig)\<close> followed by \<^verbatim>\<open>string(msg.Payload())\<close>,
    \<open>None\<close> for a parse error;
  \<^item> \<open>UnmarshalInitMFAAuth msg\<close>: \<^verbatim>\<open>json.Unmarshal(msg, &initMFAAuth)\<close> into the pointer
    \<^verbatim>\<open>*msgs.InitMFAAuth\<close>: \<open>None\<close> for an error, \<open>Some None\<close> when the pointer stays
    \<^verbatim>\<open>nil\<close> (the JSON text \<^verbatim>\<open>null\<close>), \<open>Some (Some m)\<close> otherwise;
  \<^item> \<open>HmacSHA3_256 key data\<close>: the HMAC-SHA3-256 of \<open>data\<close> under \<open>key\<close>.
\<close>

record Externals =
  JwsParsePayload :: "string \<Rightarrow> string option"
  UnmarshalInitMFAAuth :: "string \<Rightarrow> InitMFAAuth option option"
  HmacSHA3_256 :: "byte list \<Rightarrow> byte list \<Rightarrow> byte list"

subsection \<open>Time\<close>

text \<open>
  The clock reads of one call are taken at one instant \<open>now\<close>, in nanoseconds since the
  Unix epoch. \<^verbatim>\<open>time.Unix(sec, 0)\<close> stores \<^verbatim>\<open>sec + unixToInternal\<close> in an \<^verbatim>\<open>int64\<close>,
  which wraps. \<^verbatim>\<open>Time.Sub\<close> is the difference of the two instants, saturated to the
  range of a \<^verbatim>\<open>Duration\<close> (an \<^verbatim>\<open>int64\<close> of nanoseconds).
\<close>

definition unixToInternal :: int where
  "unixToInternal = 62135596800"

definition timeUnix :: "64 word \<Rightarrow> int" where
  "timeUnix sec = sint (sec + word_of_int unixToInternal) * 1000000000"

definition timeNow :: "int \<Rightarrow> int" where
  "timeNow now = now + unixToInternal * 1000000000"

definition Sub_time :: "int \<Rightarrow> int \<Rightarrow> int" where
  "Sub_time t u = max (- (2 ^ 63)) (min (2 ^ 63 - 1) (t - u))"

definition Since :: "int \<Rightarrow> int \<Rightarrow> int" where
  "Since now t = Sub_time (timeNow now) t"

definition Until :: "int \<Rightarrow> int \<Rightarrow> int" where
  "Until now t = Sub_time t (timeNow now)"

text \<open>
  \<^verbatim>\<open>d.Minutes() > 2\<close>. \<^verbatim>\<open>Minutes\<close> is \<^verbatim>\<open>float64(d / Minute) + float64(d % Minute) / 6e10\<close>;
  both summands are exact up to one rounding of a quotient below 1, and the distance
  between 2 and the next \<^verbatim>\<open>float64\<close> is far below \<^verbatim>\<open>1 / 6e10\<close>, so the comparison holds
  exactly when \<open>d\<close> is more than 120 seconds.
\<close>

definition MinutesGt2 :: "int \<Rightarrow> bool" where
  "MinutesGt2 d = (d > 120000000000)"

subsection \<open>Bytes\<close>

text \<open>\<^verbatim>\<open>binary.LittleEndian.AppendUint64\<close> and \<^verbatim>\<open>hex.EncodeToString\<close>.\<close>

definition AppendUint64 :: "byte list \<Rightarrow> 64 word \<Rightarrow> byte list" where
  "AppendUint64 b w = b @ map (\<lambda>i. ucast (drop_bit (8 * i) w)) [0..<8]"

definition hexDigit :: "nat \<Rightarrow> char" where
  "hexDigit n = ''0123456789abcdef'' ! n"

definition EncodeToString :: "byte list \<Rightarrow> string" where
  "EncodeToString bs = concat (map (\<lambda>b. [hexDigit (unat b div 16), hexDigit (unat b mod 16)]) bs)"

subsection \<open>AuthState\<close>

text \<open>
  A claim decoded into a Go \<^verbatim>\<open>string\<close> field: absent or \<^verbatim>\<open>null\<close> leaves the empty
  string, a string is stored, anything else makes \<^verbatim>\<open>json.Unmarshal\<close> return an error.
\<close>

definition stringField :: "(string \<times> json) list \<Rightarrow> string \<Rightarrow> string option" where
  "stringField claims k =
     (case map_of claims k of
        None \<Rightarrow> Some []
      | Some JNull \<Rightarrow> Some []
      | Some (JStr s) \<Rightarrow> Some s
      | Some _ \<Rightarrow> None)"

text \<open>The loop \<^verbatim>\<open>audList = append(audList, v.(string))\<close>; \<open>None\<close> is the panic.\<close>

fun audStrings :: "json list \<Rightarrow> string list option" where
  "audStrings [] = Some []"
| "audStrings (JStr s # t) = map_option (\<lambda>l. s # l) (audStrings t)"
| "audStrings (_ # t) = None"

fun Join :: "string list \<Rightarrow> string \<Rightarrow> string" where
  "Join [] sep = []"
| "Join [s] sep = s"
| "Join (s # t) sep = s @ sep @ Join t sep"

text \<open>\<^verbatim>\<open>strings.Split(s, "@")[0]\<close>: the part of \<open>s\<close> before its first \<^verbatim>\<open>@\<close>.\<close>

definition SplitAtFirst :: "string \<Rightarrow> string" where
  "SplitAtFirst s = takeWhile (\<lambda>c. c \<noteq> CHR ''@'') s"

definition NewAuthState :: "PKToken \<Rightarrow> string \<Rightarrow> string \<Rightarrow> AuthState result" where
  "NewAuthState pkt ruri nonce =
     (case Payload pkt of
        None \<Rightarrow> Err ErrUnmarshalPKToken
      | Some claims \<Rightarrow>
     (case (stringField claims ''iss'', stringField claims ''sub'', stringField claims ''email'') of
        (Some iss, Some sub, Some email) \<Rightarrow>
          (case (case map_of claims ''aud'' of
                   Some (JStr t) \<Rightarrow> Ok t
                 | Some (JArr t) \<Rightarrow>
                     (case audStrings t of None \<Rightarrow> Panic | Some audList \<Rightarrow> Ok (Join audList '',''))
                 | _ \<Rightarrow> Err ErrDeserializeAud) of
             Err e \<Rightarrow> Err e
           | Panic \<Rightarrow> Panic
           | Ok audience \<Rightarrow>
               Ok \<lparr> Pkt = pkt, StateIssuer = iss, Aud = audience, Sub = sub, Username = email,
                    DisplayName = SplitAtFirst email, RedirectURI = ruri, Nonce = nonce,
                    SigIssued = False \<rparr>)
      | _ \<Rightarrow> Err ErrUnmarshalPKToken))"

subsection \<open>Operations\<close>

text \<open>
  Each operation takes the cosigner and returns it with its result, so that what an
  operation writes to \<^verbatim>\<open>AuthStateMap\<close>, \<^verbatim>\<open>AuthCodeMap\<close> and \<^verbatim>\<open>AuthIdIter\<close> is visible.
  \<^verbatim>\<open>mac.Write\<close> returns the length of its argument and no error.
\<close>

definition CreateAuthID :: "Externals \<Rightarrow> AuthCosigner \<Rightarrow> PKToken \<Rightarrow> int \<Rightarrow> string result \<times> AuthCosigner" where
  "CreateAuthID L c pkt now =
     (let authIdInt = AuthIdIter c + 1;
          c' = c\<lparr>AuthIdIter := authIdInt\<rparr>;
          iterAndTime = AppendUint64 (AppendUint64 [] authIdInt) (word_of_int (now div 1000000000));
          n = length iterAndTime
      in if n \<noteq> 16 then (Err ErrHmacByteCount, c')
         else (Ok (EncodeToString (HmacSHA3_256 L (HmacKey c) iterAndTime)), c'))"

definition InitAuth :: "Externals \<Rightarrow> AuthCosigner \<Rightarrow> PKToken \<Rightarrow> string \<Rightarrow> int \<Rightarrow> string result \<times> AuthCosigner" where
  "InitAuth L c pkt sig now =
     (case VerifySignedMessage pkt sig of
        None \<Rightarrow> (Err ErrVerifySignedMessage, c)
      | Some msg \<Rightarrow>
     (case UnmarshalInitMFAAuth L msg of
        None \<Rightarrow> (Err ErrParseInitMFAAuth, c)
      | Some None \<Rightarrow> (Panic, c)
      | Some (Some initMFAAuth) \<Rightarrow>
     if MinutesGt2 (Since now (timeUnix (TimeSigned initMFAAuth))) then (Err ErrTimestampTooOld, c)
     else if MinutesGt2 (Until now (timeUnix (TimeSigned initMFAAuth))) then (Err ErrTimestampInFuture, c)
     else
     (case NewAuthState pkt (RedirectUri initMFAAuth) (MsgNonce initMFAAuth) of
        Err e \<Rightarrow> (Err e, c)
      | Panic \<Rightarrow> (Panic, c)
      | Ok authState \<Rightarrow>
     (case CreateAuthID L c pkt now of
        (Ok authID, c') \<Rightarrow> (Ok authID, c'\<lparr>AuthStateMap := (AuthStateMap c')(authID \<mapsto> authState)\<rparr>)
      | (Err e, c') \<Rightarrow> (Err e, c')
      | (Panic, c') \<Rightarrow> (Panic, c')))))"

text \<open>
  \<^verbatim>\<open>NewAuthcode\<close>; \<open>rnd\<close> is what \<^verbatim>\<open>rand.Read\<close> wrote into the 32 bytes, or \<open>None\<close> for
  its error.
\<close>

definition NewAuthcode :: "AuthCosigner \<Rightarrow> string \<Rightarrow> byte list option \<Rightarrow> string result \<times> AuthCosigner" where
  "NewAuthcode c authID rnd =
     (case rnd of
        None \<Rightarrow> (Err ErrRandRead, c)
      | Some authCodeBytes \<Rightarrow>
          (let authCode = EncodeToString authCodeBytes
           in (Ok authCode, c\<lparr>AuthCodeMap := (AuthCodeMap c)(authCode \<mapsto> authID)\<rparr>)))"

text \<open>
  \<^verbatim>\<open>IssueSignature\<close>. \<^verbatim>\<open>c.AuthStateMap[authID]\<close> is \<^verbatim>\<open>nil\<close> for an unknown
  \<^verbatim>\<open>authID\<close>, and reading \<^verbatim>\<open>authState.RedirectURI\<close> then panics.
\<close>

definition IssueSignature :: "AuthCosigner \<Rightarrow> PKToken \<Rightarrow> string \<Rightarrow> int \<Rightarrow> string result \<times> AuthCosigner" where
  "IssueSignature c pkt authID now =
     (case AuthStateMap c authID of
        None \<Rightarrow> (Panic, c)
      | Some authState \<Rightarrow>
          (let protected = \<lparr> Iss = CosignerIssuer c, ClaimKeyID = KeyID c, Algorithm = Alg c,
                              AuthID = authID, AuthTime = now div 1000000000,
                              IssuedAt = now div 1000000000,
                              Expiration = (now + 3600000000000) div 1000000000,
                              ClaimRedirectURI = RedirectURI authState,
                              ClaimNonce = Nonce authState \<rparr>
           in (case Cosign c pkt protected of
                 None \<Rightarrow> (Err ErrCosign, c)
               | Some cos \<Rightarrow> (Ok cos, c))))"

text \<open>
  \<^verbatim>\<open>RedeemAuthcode\<close>. For an authcode whose \<^verbatim>\<open>authID\<close> has no \<^verbatim>\<open>AuthState\<close>,
  \<^verbatim>\<open>authState\<close> is \<^verbatim>\<open>nil\<close> and \<^verbatim>\<open>authState.Pkt\<close> panics.
\<close>

definition RedeemAuthcode :: "Externals \<Rightarrow> AuthCosigner \<Rightarrow> string \<Rightarrow> int \<Rightarrow> string result \<times> AuthCosigner" where
  "RedeemAuthcode L c sig now =
     (case JwsParsePayload L sig of
        None \<Rightarrow> (Err ErrJwsParse, c)
      | Some payload \<Rightarrow>
     (case AuthCodeMap c payload of
        None \<Rightarrow> (Err ErrInvalidAuthcode, c)
      | Some authID \<Rightarrow>
     (case AuthStateMap c authID of
        None \<Rightarrow> (Panic, c)
      | Some authState \<Rightarrow>
          (let pkt = Pkt authState
           in (case VerifySignedMessage (Pkt authState) sig of
                 None \<Rightarrow> (Err ErrVerifySignedMessage, c)
               | Some _ \<Rightarrow> IssueSignature c pkt authID now)))))"

section \<open>Example tokens and verifiers\<close>

text \<open>
  A token whose payload has audience \<open>''verifier''\<close>, issuer \<open>''https://op.example''\<close> and the
  CIC hash \<open>''H''\<close> in its \<open>''nonce''\<close> claim, whose CIC signature verifies, and whose provider
  signature verifies under no key at all. The examples below change single fields of it.
\<close>

definition pkt0 :: PKToken where
  "pkt0 = \<lparr> Payload = Some [(''iss'', JStr ''https://op.example''), (''aud'', JStr ''verifier''),
                              (''nonce'', JStr ''H'')],
            OpToken = ''optoken'',
            ProviderAlgorithm = Some ''RS256'',
            OpProtectedHeaders = [(''alg'', JStr ''RS256'')],
            OriginalHeadersAlg = Some ''RS256'',
            PktIssuer = Some ''https://op.example'',
            CicValues = Some \<lparr> Hash = Some ''H'' \<rparr>,
            JwsVerifyOp = (\<lambda>alg key. False),
            GQ256VerifyJWT = (\<lambda>n. Some False),
            JwsVerifyCic = True,
            VerifySignedMessage = (\<lambda>sig. Some sig) \<rparr>"

text \<open>
  A verifier for the issuer \<open>''https://op.example''\<close> with client ID \<open>''verifier''\<close> and
  commitment claim \<open>''nonce''\<close>, whose key discovery finds the RSA key 1 for that issuer.
\<close>

definition opts0 :: ProviderVerifierOpts where
  "opts0 = \<lparr> ClientID = ''verifier'', SkipClientIDCheck = False,
             DiscoverPublicKey = (\<lambda>iss token. if iss = ''https://op.example'' then Some (RsaPublicKey 1) else None),
             SkipExpirationCheck = False, GQOnly = False, GQCommitment = False \<rparr>"

definition v0 :: DefaultProviderVerifier where
  "v0 = \<lparr> issuer = ''https://op.example'', commitmentClaim = ''nonce'', options = opts0 \<rparr>"

text \<open>The token \<open>pkt0\<close> with the audience \<open>''other''\<close> instead of the client ID.\<close>

definition pkt_wrong_aud :: PKToken where
  "pkt_wrong_aud =
     pkt0\<lparr>Payload := Some [(''iss'', JStr ''https://op.example''), (''aud'', JStr ''other''),
                           (''nonce'', JStr ''H'')]\<rparr>"





section \<open>Example cosigner\<close>

text \<open>
  Library stand-ins for the examples: the payload of a JWS is the JWS itself, every signed
  message decodes to \<open>msg0\<close> (signed at Unix time 1700000000), and the MAC of some data is
  the data. The cosigner \<open>cos0\<close> is new; \<open>cos1\<close> holds the state \<open>st0\<close>, which is what
  \<open>NewAuthState\<close> builds for \<open>pkt0\<close> and \<open>msg0\<close>, under the auth ID \<open>''a1''\<close>.
\<close>

definition msg0 :: InitMFAAuth where
  "msg0 = \<lparr> RedirectUri = ''https://client.example/cb'', TimeSigned = 1700000000, MsgNonce = ''n1'' \<rparr>"

definition L0 :: Externals where
  "L0 = \<lparr> JwsParsePayload = (\<lambda>sig. Some sig),
          UnmarshalInitMFAAuth = (\<lambda>msg. Some (Some msg0)),
          HmacSHA3_256 = (\<lambda>key data. data) \<rparr>"

definition cos0 :: AuthCosigner where
  "cos0 = \<lparr> Alg = ''ES256'', Cosign = (\<lambda>pkt claims. Some (''cos:'' @ AuthID claims)),
            CosignerIssuer = ''https://cosigner.example'', KeyID = ''k1'', AuthIdIter = 0,
            HmacKey = [], AuthStateMap = Map.empty, AuthCodeMap = Map.empty \<rparr>"

definition st0 :: AuthState where
  "st0 = \<lparr> Pkt = pkt0, StateIssuer = ''https://op.example'', Aud = ''verifier'', Sub = [],
           Username = [], DisplayName = [], RedirectURI = ''https://client.example/cb'',
           Nonce = ''n1'', SigIssued = False \<rparr>"

definition cos1 :: AuthCosigner where
  "cos1 = cos0\<lparr>AuthStateMap := [''a1'' \<mapsto> st0]\<rparr>"

definition authCodeBytes0 :: "byte list" where
  "authCodeBytes0 = replicate 32 90"

section \<open>Words of the specification\<close>





text \<open>
  The errors of the provider signature step of \<open>VerifyProvider\<close> (the GQ signature, the
  key lookup, the RS256 signature), and the errors of \<open>verifyCommitment\<close> about the
  commitment.
\<close>

fun isSignatureError :: "error \<Rightarrow> bool" where
  "isSignatureError (ErrVerifyingGQSig e) = True"
| "isSignatureError (ErrGetOPPublicKey e) = True"
| "isSignatureError ErrJwsVerifyOp = True"
| "isSignatureError _ = False"

fun isCommitmentError :: "error \<Rightarrow> bool" where
  "isCommitmentError ErrCommitmentMismatch = True"
| "isCommitmentError ErrMissingCommitmentClaim = True"
| "isCommitmentError ErrMissingGQCommitment = True"
| "isCommitmentError _ = False"

section \<open>Properties of the provider verifier\<close>

lemmas example_defs = pkt0_def v0_def opts0_def GQ256_def RS256_def Issuer_def


lemmas verifier_defs = VerifyProvider_def verifyAudience_def switchAlg_def verifyCommitment_def
  verifyCicSignature_def verifyGQSig_def providerPublicKey_def

text \<open>
  Claim C1: a PK Token whose provider header declares an algorithm other than RS256 and
  GQ256 is rejected by \<open>VerifyProvider\<close>. The switch has no default case: for the token
  \<open>pkt0\<close> with the algorithm ES256, whose provider signature verifies under no key,
  \<open>VerifyProvider\<close> goes on to the commitment and the CIC signature and returns no error.
\<close>

theorem C1_ES256_token_accepted:
  "VerifyProvider v0 (pkt0\<lparr>ProviderAlgorithm := Some ''ES256''\<rparr>) = Ok ()"
  by (simp add: example_defs verifier_defs)

text \<open>
  Claim C2: a PK Token whose issuer differs from the verifier's issuer is rejected, for
  RS256 as for GQ256. Only \<open>verifyGQSig\<close> compares the issuers. An RS256 token with another
  issuer, signed by a key that discovery finds for the verifier's issuer, is accepted; the
  same token under GQ256 is rejected with the issuer mismatch error.
\<close>

theorem C2_RS256_issuer_not_checked:
  "PktIssuer (pkt0\<lparr>PktIssuer := Some ''https://evil.example''\<rparr>) \<noteq> Some (issuer v0) \<and>
   VerifyProvider v0
     (pkt0\<lparr>PktIssuer := Some ''https://evil.example'',
           JwsVerifyOp := (\<lambda>alg key. alg = ''RS256'' \<and> key = RsaPublicKey 1)\<rparr>) = Ok () \<and>
   VerifyProvider v0
     (pkt0\<lparr>ProviderAlgorithm := Some ''GQ256'', PktIssuer := Some ''https://evil.example'',
           GQ256VerifyJWT := (\<lambda>n. Some True)\<rparr>) = Err (ErrVerifyingGQSig ErrIssuerMismatch)"
  by (simp add: example_defs verifier_defs)

subsection \<open>Which steps can panic\<close>

lemma verifyGQSig_no_panic: "verifyGQSig v pkt \<noteq> Panic"
  by (auto simp: verifyGQSig_def split: option.splits PublicKey.splits)

lemma switchAlg_no_panic: "switchAlg v pkt alg \<noteq> Panic"
  using verifyGQSig_no_panic[of v pkt]
  by (auto simp: switchAlg_def split: option.splits result.splits)



subsection \<open>Order of the checks\<close>

text \<open>
  Claim C4, as stated: a token whose commitment equals the CIC hash and whose provider
  signature does not verify fails with the signature error. The audience is checked
  first: \<open>pkt_wrong_aud\<close> has the right commitment (\<open>verifyCommitment\<close> accepts it) and a
  signature that does not verify, and \<open>VerifyProvider\<close> returns the audience error.
\<close>

theorem C4_audience_error_comes_first:
  "verifyCommitment v0 pkt_wrong_aud = Ok () \<and>
   switchAlg v0 pkt_wrong_aud ''RS256'' = Err ErrJwsVerifyOp \<and>
   VerifyProvider v0 pkt_wrong_aud = Err ErrAudienceMismatch \<and>
   \<not> isSignatureError ErrAudienceMismatch"
  by (simp add: pkt_wrong_aud_def example_defs verifier_defs)

text \<open>
  Claim C4, amended: when the option check, the audience check, the algorithm lookup and
  the GQ-only check let the token through, its algorithm is GQ256 or RS256 and the
  signature step of the switch does not succeed, then \<open>VerifyProvider\<close> returns the error
  of that step, which is a signature error and no commitment error. Nothing is assumed
  about the commitment: \<open>verifyCommitment\<close> is not reached.
\<close>

theorem C4_signature_checked_before_commitment:
  assumes sanity: "\<not> GQCommitment (options v) \<or>
             (GQOnly (options v) \<and> commitmentClaim v = [] \<and> SkipClientIDCheck (options v))"
      and aud: "verifyAudience pkt (ClientID (options v)) = Ok () \<or>
             (SkipClientIDCheck (options v) \<and> verifyAudience pkt (ClientID (options v)) \<noteq> Panic)"
      and alg: "ProviderAlgorithm pkt = Some alg" "alg = GQ256 \<or> (alg = RS256 \<and> \<not> GQOnly (options v))"
      and sig: "switchAlg v pkt alg \<noteq> Ok ()"
  shows "\<exists>e. VerifyProvider v pkt = Err e \<and> switchAlg v pkt alg = Err e \<and>
             isSignatureError e \<and> \<not> isCommitmentError e"
proof -
  from sig switchAlg_no_panic[of v pkt alg] obtain e where e: "switchAlg v pkt alg = Err e"
    by (cases "switchAlg v pkt alg") auto
  have se: "isSignatureError e"
    using e alg(2)
    by (auto simp: switchAlg_def GQ256_def RS256_def split: result.splits option.splits if_splits)
  then have nc: "\<not> isCommitmentError e" by (cases e) auto
  have "VerifyProvider v pkt = Err e"
    using sanity aud alg e
    by (cases "verifyAudience pkt (ClientID (options v))") (auto simp: VerifyProvider_def)
  with e se nc show ?thesis by blast
qed

theorem C4_signature_checked_before_commitment_witness:
  "verifyAudience pkt0 (ClientID (options v0)) = Ok () \<and>
   ProviderAlgorithm pkt0 = Some RS256 \<and>
   switchAlg v0 pkt0 RS256 \<noteq> Ok () \<and>
   verifyCommitment v0 pkt0 = Ok () \<and>
   (\<exists>e. VerifyProvider v0 pkt0 = Err e \<and> isSignatureError e \<and> \<not> isCommitmentError e)"
proof -
  have s: "\<not> GQCommitment (options v0) \<or>
             (GQOnly (options v0) \<and> commitmentClaim v0 = [] \<and> SkipClientIDCheck (options v0))"
    by (simp add: example_defs)
  have a: "verifyAudience pkt0 (ClientID (options v0)) = Ok ()"
    by (simp add: example_defs verifier_defs)
  have g: "ProviderAlgorithm pkt0 = Some RS256" by (simp add: example_defs)
  have r: "RS256 = GQ256 \<or> (RS256 = RS256 \<and> \<not> GQOnly (options v0))" by (simp add: example_defs)
  have f: "switchAlg v0 pkt0 RS256 \<noteq> Ok ()" by (simp add: example_defs verifier_defs)
  have c: "verifyCommitment v0 pkt0 = Ok ()" by (simp add: example_defs verifier_defs)
  from C4_signature_checked_before_commitment[OF s disjI1[OF a] g r f]
  have "\<exists>e. VerifyProvider v0 pkt0 = Err e \<and> isSignatureError e \<and> \<not> isCommitmentError e"
    by blast
  with a g f c show ?thesis by blast
qed

subsection \<open>Audience\<close>






subsection \<open>GQ commitment mode\<close>












section \<open>Properties of the cosigner\<close>

lemmas cosigner_example_defs = L0_def cos0_def cos1_def st0_def msg0_def

subsection \<open>The two-minute window\<close>

text \<open>
  \<open>time.Unix(sec, 0)\<close> wraps only for \<open>sec\<close> within \<open>unixToInternal\<close> of the largest
  \<^verbatim>\<open>int64\<close>.
\<close>

lemma sint_add_unixToInternal:
  fixes ts :: "64 word"
  shows "sint (ts + word_of_int unixToInternal) =
     (if sint ts + unixToInternal < 2 ^ 63 then sint ts + unixToInternal
      else sint ts + unixToInternal - 2 ^ 64)"
proof -
  have r: "- (2 ^ 63) \<le> sint ts" "sint ts < 2 ^ 63"
    using sint_ge[of ts] sint_lt[of ts] by simp_all
  have e: "sint (ts + word_of_int unixToInternal) =
             (sint ts + unixToInternal + 2 ^ 63) mod 2 ^ 64 - 2 ^ 63"
    by (simp add: sint_word_ariths unixToInternal_def signed_take_bit_eq_take_bit_shift
        take_bit_eq_mod)
  show ?thesis
  proof (cases "sint ts + unixToInternal < 2 ^ 63")
    case True
    then have "(sint ts + unixToInternal + 2 ^ 63) mod 2 ^ 64 = sint ts + unixToInternal + 2 ^ 63"
      using r by (intro mod_pos_pos_trivial) (simp_all add: unixToInternal_def)
    with e True show ?thesis by simp
  next
    case False
    then have "(sint ts + unixToInternal + 2 ^ 63) mod 2 ^ 64 =
                 sint ts + unixToInternal + 2 ^ 63 - 2 ^ 64"
      using r by (intro int_mod_pos_eq) (simp_all add: unixToInternal_def)
    with e False show ?thesis by simp
  qed
qed

lemma MinutesGt2_Sub_time: "MinutesGt2 (Sub_time t u) \<longleftrightarrow> t - u > 120000000000"
  by (auto simp: MinutesGt2_def Sub_time_def)

lemma window_reject:
  fixes ts :: "64 word"
  assumes "0 \<le> now" "\<bar>now - sint ts * 1000000000\<bar> > 120000000000"
  shows "MinutesGt2 (Since now (timeUnix ts)) \<or> MinutesGt2 (Until now (timeUnix ts))"
proof -
  have r: "- (2 ^ 63) \<le> sint ts" "sint ts < 2 ^ 63"
    using sint_ge[of ts] sint_lt[of ts] by simp_all
  show ?thesis
    using assms r
    by (simp add: Since_def Until_def MinutesGt2_Sub_time timeUnix_def timeNow_def
          sint_add_unixToInternal)
       (auto simp: unixToInternal_def)
qed

lemma window_accept:
  fixes ts :: "64 word"
  assumes "0 \<le> now" "now < 2 ^ 63" "\<bar>now - sint ts * 1000000000\<bar> \<le> 120000000000"
  shows "\<not> MinutesGt2 (Since now (timeUnix ts)) \<and> \<not> MinutesGt2 (Until now (timeUnix ts))"
proof -
  have "sint ts * 1000000000 \<le> now + 120000000000" using assms by linarith
  also have "\<dots> < 9223372156854775808" using assms by simp
  finally have "sint ts < 9223372157" by linarith
  then have nw: "sint ts + unixToInternal < 2 ^ 63" by (simp add: unixToInternal_def)
  show ?thesis
    using assms nw
    by (simp add: Since_def Until_def MinutesGt2_Sub_time timeUnix_def timeNow_def
          sint_add_unixToInternal)
       (auto simp: unixToInternal_def)
qed

lemma length_AppendUint64: "length (AppendUint64 b w) = length b + 8"
  by (simp add: AppendUint64_def)

lemma CreateAuthID_eq:
  "CreateAuthID L c pkt now =
     (Ok (EncodeToString (HmacSHA3_256 L (HmacKey c)
            (AppendUint64 (AppendUint64 [] (AuthIdIter c + 1)) (word_of_int (now div 1000000000))))),
      c\<lparr>AuthIdIter := AuthIdIter c + 1\<rparr>)"
  by (simp add: CreateAuthID_def Let_def length_AppendUint64)

text \<open>
  Claim C7, as stated: inside the window, with a valid signature and a well-formed
  message, \<open>InitAuth\<close> creates an \<open>AuthState\<close> and returns an auth ID.
  \<open>NewAuthState\<close> can still refuse the token: for a token without an \<open>aud\<close> claim, a valid
  signature and the message \<open>msg0\<close> signed 60 seconds before \<open>now\<close>, \<open>InitAuth\<close> returns
  the error of \<open>NewAuthState\<close> and leaves the cosigner as it was.
\<close>

theorem C7_token_without_audience_refused:
  "VerifySignedMessage (pkt0\<lparr>Payload := Some [(''iss'', JStr ''https://op.example'')]\<rparr>) ''sig'' = Some ''sig'' \<and>
   UnmarshalInitMFAAuth L0 ''sig'' = Some (Some msg0) \<and>
   \<bar>1700000060000000000 - sint (TimeSigned msg0) * 1000000000\<bar> \<le> 120000000000 \<and>
   InitAuth L0 cos0 (pkt0\<lparr>Payload := Some [(''iss'', JStr ''https://op.example'')]\<rparr>) ''sig''
       1700000060000000000
     = (Err ErrDeserializeAud, cos0)"
proof -
  have t: "sint (TimeSigned msg0) = 1700000000" by (simp add: msg0_def)
  have w: "\<bar>1700000060000000000 - sint (TimeSigned msg0) * 1000000000\<bar> \<le> 120000000000"
    by (simp add: t)
  from window_accept[OF _ _ w] show ?thesis
    using w by (simp add: InitAuth_def L0_def pkt0_def NewAuthState_def stringField_def)
qed

text \<open>
  Claim C7, amended: for an \<open>InitAuth\<close> call whose signature verifies and whose message
  decodes to an \<open>InitMFAAuth\<close> with the timestamp \<open>TimeSigned\<close>, at a clock reading \<open>now\<close>
  (nanoseconds, between 1970 and 2262): when \<open>|now - TimeSigned|\<close> exceeds two minutes,
  in the past or in the future, \<open>InitAuth\<close> returns a timestamp error and leaves the cosigner
  unchanged; otherwise, when \<open>NewAuthState\<close> accepts the token, it increments the counter,
  returns the auth ID \<open>hex(HMAC(key, counter \<parallel> unix time))\<close> minted from the new counter, and
  stores the new \<open>AuthState\<close> under it.
\<close>

theorem C7_InitAuth_window:
  assumes "VerifySignedMessage pkt sig = Some msg"
      and "UnmarshalInitMFAAuth L msg = Some (Some m)"
      and "0 \<le> now" "now < 2 ^ 63"
  shows "(\<bar>now - sint (TimeSigned m) * 1000000000\<bar> > 120000000000 \<longrightarrow>
            (\<exists>e. InitAuth L c pkt sig now = (Err e, c) \<and>
                 (e = ErrTimestampTooOld \<or> e = ErrTimestampInFuture))) \<and>
         (\<bar>now - sint (TimeSigned m) * 1000000000\<bar> \<le> 120000000000 \<longrightarrow>
            (\<forall>st. NewAuthState pkt (RedirectUri m) (MsgNonce m) = Ok st \<longrightarrow>
               (let authID = EncodeToString (HmacSHA3_256 L (HmacKey c)
                       (AppendUint64 (AppendUint64 [] (AuthIdIter c + 1))
                          (word_of_int (now div 1000000000))))
                in InitAuth L c pkt sig now =
                     (Ok authID, c\<lparr>AuthIdIter := AuthIdIter c + 1,
                                   AuthStateMap := (AuthStateMap c)(authID \<mapsto> st)\<rparr>))))"
proof (intro conjI impI allI)
  assume "\<bar>now - sint (TimeSigned m) * 1000000000\<bar> > 120000000000"
  from window_reject[OF assms(3) this]
  show "\<exists>e. InitAuth L c pkt sig now = (Err e, c) \<and>
            (e = ErrTimestampTooOld \<or> e = ErrTimestampInFuture)"
    using assms(1,2) by (auto simp: InitAuth_def)
next
  fix st
  assume w: "\<bar>now - sint (TimeSigned m) * 1000000000\<bar> \<le> 120000000000"
     and s: "NewAuthState pkt (RedirectUri m) (MsgNonce m) = Ok st"
  from window_accept[OF assms(3,4) w]
  show "let authID = EncodeToString (HmacSHA3_256 L (HmacKey c)
                       (AppendUint64 (AppendUint64 [] (AuthIdIter c + 1))
                          (word_of_int (now div 1000000000))))
        in InitAuth L c pkt sig now =
             (Ok authID, c\<lparr>AuthIdIter := AuthIdIter c + 1,
                           AuthStateMap := (AuthStateMap c)(authID \<mapsto> st)\<rparr>)"
    using assms(1,2) s by (simp add: InitAuth_def CreateAuthID_eq Let_def)
qed

theorem C7_InitAuth_window_witness:
  "VerifySignedMessage pkt0 ''sig'' = Some ''sig'' \<and>
   UnmarshalInitMFAAuth L0 ''sig'' = Some (Some msg0) \<and>
   (\<exists>e. InitAuth L0 cos0 pkt0 ''sig'' 1700000999000000000 = (Err e, cos0)) \<and>
   (\<exists>e. InitAuth L0 cos0 pkt0 ''sig'' 1699999000000000000 = (Err e, cos0)) \<and>
   (\<exists>authID. fst (InitAuth L0 cos0 pkt0 ''sig'' 1700000060000000000) = Ok authID \<and>
      AuthStateMap (snd (InitAuth L0 cos0 pkt0 ''sig'' 1700000060000000000)) authID = Some st0 \<and>
      AuthIdIter (snd (InitAuth L0 cos0 pkt0 ''sig'' 1700000060000000000)) = 1)"
proof -
  have v: "VerifySignedMessage pkt0 ''sig'' = Some ''sig''" by (simp add: pkt0_def)
  have u: "UnmarshalInitMFAAuth L0 ''sig'' = Some (Some msg0)" by (simp add: L0_def)
  have t: "sint (TimeSigned msg0) = 1700000000" by (simp add: msg0_def)
  have n: "NewAuthState pkt0 (RedirectUri msg0) (MsgNonce msg0) = Ok st0"
    by (simp add: NewAuthState_def pkt0_def st0_def msg0_def stringField_def SplitAtFirst_def)
  have late: "\<bar>1700000999000000000 - sint (TimeSigned msg0) * 1000000000\<bar> > 120000000000"
    by (simp add: t)
  have early: "\<bar>1699999000000000000 - sint (TimeSigned msg0) * 1000000000\<bar> > 120000000000"
    by (simp add: t)
  have near: "\<bar>1700000060000000000 - sint (TimeSigned msg0) * 1000000000\<bar> \<le> 120000000000"
    by (simp add: t)
  have r1: "\<exists>e. InitAuth L0 cos0 pkt0 ''sig'' 1700000999000000000 = (Err e, cos0)"
    using C7_InitAuth_window[OF v u, of 1700000999000000000 cos0] late by auto
  have r2: "\<exists>e. InitAuth L0 cos0 pkt0 ''sig'' 1699999000000000000 = (Err e, cos0)"
    using C7_InitAuth_window[OF v u, of 1699999000000000000 cos0] early by auto
  have "\<exists>authID. InitAuth L0 cos0 pkt0 ''sig'' 1700000060000000000 =
              (Ok authID, cos0\<lparr>AuthIdIter := AuthIdIter cos0 + 1,
                               AuthStateMap := (AuthStateMap cos0)(authID \<mapsto> st0)\<rparr>)"
    using C7_InitAuth_window[OF v u, of 1700000060000000000 cos0] near n by (auto simp: Let_def)
  then obtain a where "InitAuth L0 cos0 pkt0 ''sig'' 1700000060000000000 =
              (Ok a, cos0\<lparr>AuthIdIter := AuthIdIter cos0 + 1,
                          AuthStateMap := (AuthStateMap cos0)(a \<mapsto> st0)\<rparr>)" by blast
  then have "fst (InitAuth L0 cos0 pkt0 ''sig'' 1700000060000000000) = Ok a \<and>
      AuthStateMap (snd (InitAuth L0 cos0 pkt0 ''sig'' 1700000060000000000)) a = Some st0 \<and>
      AuthIdIter (snd (InitAuth L0 cos0 pkt0 ''sig'' 1700000060000000000)) = 1"
    by (simp add: cos0_def)
  with v u r1 r2 show ?thesis by blast
qed

subsection \<open>What the operations write\<close>

lemma IssueSignature_state: "snd (IssueSignature c pkt authID now) = c"
  by (simp add: IssueSignature_def Let_def split: option.splits)

lemma RedeemAuthcode_state: "snd (RedeemAuthcode L c sig now) = c"
  by (simp add: RedeemAuthcode_def Let_def IssueSignature_state split: option.splits)

text \<open>
  Claim C8: after a successful \<open>IssueSignature\<close> the \<open>AuthState\<close> stored under the auth ID
  has \<open>SigIssued\<close> set. \<open>IssueSignature\<close> writes nothing: it returns the cosigner it was
  given, and for the cosigner \<open>cos1\<close> it returns the cosigned token built from the claims
  of auth ID \<open>''a1''\<close> while the state under \<open>''a1''\<close> still has \<open>SigIssued = False\<close>.
\<close>

theorem C8_SigIssued_stays_false:
  "snd (IssueSignature c pkt authID now) = c \<and>
   fst (IssueSignature cos1 pkt0 ''a1'' 1700000060000000000) = Ok ''cos:a1'' \<and>
   map_option SigIssued
     (AuthStateMap (snd (IssueSignature cos1 pkt0 ''a1'' 1700000060000000000)) ''a1'') = Some False"
  by (simp add: IssueSignature_state) (simp add: IssueSignature_def cosigner_example_defs)

text \<open>
  Claim C3, as stated: after one successful \<open>RedeemAuthcode\<close> the authcode is removed and
  a second \<open>RedeemAuthcode\<close> with it returns an error. For the authcode that \<open>NewAuthcode\<close>
  issues to \<open>cos1\<close> for \<open>''a1''\<close>, the first redemption succeeds, the authcode is still in
  \<open>AuthCodeMap\<close> afterwards, and a second redemption 30 seconds later succeeds again.
\<close>

theorem C3_authcode_redeemed_twice:
  "fst (NewAuthcode cos1 ''a1'' (Some authCodeBytes0)) = Ok (EncodeToString authCodeBytes0) \<and>
   fst (RedeemAuthcode L0 (snd (NewAuthcode cos1 ''a1'' (Some authCodeBytes0)))
          (EncodeToString authCodeBytes0) 1700000060000000000) = Ok ''cos:a1'' \<and>
   AuthCodeMap (snd (RedeemAuthcode L0 (snd (NewAuthcode cos1 ''a1'' (Some authCodeBytes0)))
          (EncodeToString authCodeBytes0) 1700000060000000000)) (EncodeToString authCodeBytes0)
     = Some ''a1'' \<and>
   fst (RedeemAuthcode L0
          (snd (RedeemAuthcode L0 (snd (NewAuthcode cos1 ''a1'' (Some authCodeBytes0)))
                  (EncodeToString authCodeBytes0) 1700000060000000000))
          (EncodeToString authCodeBytes0) 1700000090000000000) = Ok ''cos:a1''"
  by (simp add: RedeemAuthcode_state)
     (simp add: NewAuthcode_def RedeemAuthcode_def IssueSignature_def cosigner_example_defs
        pkt0_def Let_def)

text \<open>
  Claim C3, amended: a successful \<open>RedeemAuthcode\<close> leaves the cosigner unchanged. The
  authcode it presented is still mapped to its auth ID, whose \<open>AuthState\<close> is still there,
  so a second \<open>RedeemAuthcode\<close> with the same signed authcode is never refused as an
  invalid authcode: at any later clock reading it returns what \<open>IssueSignature\<close> returns
  for that auth ID, and at the same clock reading the same cosignature again.
\<close>

theorem C3_redeem_keeps_authcode:
  assumes "fst (RedeemAuthcode L c sig now) = Ok cos"
  shows "snd (RedeemAuthcode L c sig now) = c \<and>
         (\<exists>authcode authID authState.
            JwsParsePayload L sig = Some authcode \<and>
            AuthCodeMap (snd (RedeemAuthcode L c sig now)) authcode = Some authID \<and>
            AuthStateMap (snd (RedeemAuthcode L c sig now)) authID = Some authState \<and>
            (\<forall>now'. RedeemAuthcode L (snd (RedeemAuthcode L c sig now)) sig now' =
                      IssueSignature c (Pkt authState) authID now')) \<and>
         fst (RedeemAuthcode L (snd (RedeemAuthcode L c sig now)) sig now) = Ok cos"
  using assms
  by (auto simp: RedeemAuthcode_state) (auto simp: RedeemAuthcode_def Let_def split: option.splits)

theorem C3_redeem_keeps_authcode_witness:
  "fst (RedeemAuthcode L0 (cos1\<lparr>AuthCodeMap := [''c0de'' \<mapsto> ''a1'']\<rparr>) ''c0de'' 1700000060000000000)
     = Ok ''cos:a1'' \<and>
   AuthCodeMap (snd (RedeemAuthcode L0 (cos1\<lparr>AuthCodeMap := [''c0de'' \<mapsto> ''a1'']\<rparr>) ''c0de''
                       1700000060000000000)) ''c0de'' = Some ''a1'' \<and>
   fst (RedeemAuthcode L0
          (snd (RedeemAuthcode L0 (cos1\<lparr>AuthCodeMap := [''c0de'' \<mapsto> ''a1'']\<rparr>) ''c0de''
                  1700000060000000000))
          ''c0de'' 1700000060000000000) = Ok ''cos:a1''"
proof -
  let ?c = "cos1\<lparr>AuthCodeMap := [''c0de'' \<mapsto> ''a1'']\<rparr>"
  have h: "fst (RedeemAuthcode L0 ?c ''c0de'' 1700000060000000000) = Ok ''cos:a1''"
    by (simp add: RedeemAuthcode_def IssueSignature_def cosigner_example_defs pkt0_def Let_def)
  from C3_redeem_keeps_authcode[OF h] h show ?thesis by (simp add: cosigner_example_defs)
qed

text \<open>
  Claim C10: \<open>NewAuthcode\<close> stores the authcode for any auth ID, without looking at
  \<open>AuthStateMap\<close>; when the auth ID has no \<open>AuthState\<close>, redeeming that authcode makes
  \<open>RedeemAuthcode\<close> read a field of a \<^verbatim>\<open>nil\<close> \<open>AuthState\<close> and panic.
\<close>

theorem C10_authcode_for_unknown_auth_id:
  "NewAuthcode c authID (Some authCodeBytes) =
     (Ok (EncodeToString authCodeBytes),
      c\<lparr>AuthCodeMap := (AuthCodeMap c)(EncodeToString authCodeBytes \<mapsto> authID)\<rparr>) \<and>
   (AuthStateMap c authID = None \<and> JwsParsePayload L sig = Some (EncodeToString authCodeBytes) \<longrightarrow>
      RedeemAuthcode L (snd (NewAuthcode c authID (Some authCodeBytes))) sig now =
        (Panic, snd (NewAuthcode c authID (Some authCodeBytes))))"
  by (simp add: NewAuthcode_def RedeemAuthcode_def Let_def)

theorem C10_authcode_for_unknown_auth_id_witness:
  "AuthStateMap cos0 ''never-created'' = None \<and>
   JwsParsePayload L0 (EncodeToString authCodeBytes0) = Some (EncodeToString authCodeBytes0) \<and>
   fst (NewAuthcode cos0 ''never-created'' (Some authCodeBytes0)) = Ok (EncodeToString authCodeBytes0) \<and>
   fst (RedeemAuthcode L0 (snd (NewAuthcode cos0 ''never-created'' (Some authCodeBytes0)))
          (EncodeToString authCodeBytes0) 1700000060000000000) = Panic"
proof -
  have h: "AuthStateMap cos0 ''never-created'' = None \<and>
           JwsParsePayload L0 (EncodeToString authCodeBytes0) = Some (EncodeToString authCodeBytes0)"
    by (simp add: cos0_def L0_def)
  note t = C10_authcode_for_unknown_auth_id[of cos0 "''never-created''" authCodeBytes0 L0
      "EncodeToString authCodeBytes0" 1700000060000000000]
  from t have a: "fst (NewAuthcode cos0 ''never-created'' (Some authCodeBytes0)) =
                    Ok (EncodeToString authCodeBytes0)"
    by (simp only: fst_conv)
  from t h have "RedeemAuthcode L0 (snd (NewAuthcode cos0 ''never-created'' (Some authCodeBytes0)))
          (EncodeToString authCodeBytes0) 1700000060000000000 =
        (Panic, snd (NewAuthcode cos0 ''never-created'' (Some authCodeBytes0)))" by blast
  then have b: "fst (RedeemAuthcode L0 (snd (NewAuthcode cos0 ''never-created'' (Some authCodeBytes0)))
          (EncodeToString authCodeBytes0) 1700000060000000000) = Panic" by (simp only: fst_conv)
  from h a b show ?thesis by blast
qed

end
